theory Spec2Isabelle
  imports Main "HOL-Library.AList" "HOL-Library.Sublist"
begin

section \<open>Text\<close>

text \<open>
  \<^verbatim>\<open>saneyaml.py\<close> works on Python 2 \<^verbatim>\<open>unicode\<close> objects: the module imports
  \<^verbatim>\<open>unicode_literals\<close>, \<^verbatim>\<open>string_loader\<close> returns the \<^verbatim>\<open>unicode\<close> value of a node, and
  \<^verbatim>\<open>string_dumper\<close> decodes every \<^verbatim>\<open>str\<close> it is given (line 174), which only a Python 2
  byte string allows. A \<^verbatim>\<open>unicode\<close> object is a sequence of code points and \<^verbatim>\<open>len\<close>
  counts code points, so text is a list of code points here. Tags and type names, which
  are ASCII constants of the program, stay \<open>string\<close>s.
\<close>

type_synonym unicode = "nat list"

abbreviation u :: "string \<Rightarrow> unicode" where
  "u s \<equiv> map of_char s"

definition LF :: nat where "LF = 10"
definition CR :: nat where "CR = 13"
definition SP :: nat where "SP = 32"

text \<open>
  \<^verbatim>\<open>repr\<close> of an integer: an optional minus sign and the decimal digits.
\<close>

function digits :: "nat \<Rightarrow> unicode" where
  "digits n = (if n < 10 then [48 + n] else digits (n div 10) @ [48 + n mod 10])"
  by pat_completeness auto
termination
  by (relation "measure (\<lambda>n. n)") auto

declare digits.simps [simp del]

definition repr_int :: "int \<Rightarrow> unicode" where
  "repr_int i = (if i < 0 then 45 # digits (nat (- i)) else digits (nat i))"

text \<open>\<^verbatim>\<open>'%0*d' % (w, n)\<close>: the digits of \<open>n\<close>, padded with zeros on the left to width \<open>w\<close>.\<close>

definition zero_padded :: "nat \<Rightarrow> nat \<Rightarrow> unicode" where
  "zero_padded w n = replicate (w - length (digits n)) 48 @ digits n"

text \<open>\<^verbatim>\<open>value.lower()\<close> on the ASCII letters, the only ones in the keys it is looked up in.\<close>

definition lower :: "unicode \<Rightarrow> unicode" where
  "lower v = map (\<lambda>c. if 65 \<le> c \<and> c \<le> 90 then c + 32 else c) v"

text \<open>
  The line boundaries of \<^verbatim>\<open>unicode.splitlines\<close> (Python 2.7 and 3): \<^verbatim>\<open>\n\<close>, \<^verbatim>\<open>\v\<close>,
  \<^verbatim>\<open>\f\<close>, \<^verbatim>\<open>\r\<close>, \<^verbatim>\<open>\x1c\<close>, \<^verbatim>\<open>\x1d\<close>, \<^verbatim>\<open>\x1e\<close>, \<^verbatim>\<open>\x85\<close>, U+2028 and U+2029.
\<close>

definition is_linebreak :: "nat \<Rightarrow> bool" where
  "is_linebreak c \<longleftrightarrow> c \<in> {10, 11, 12, 13, 28, 29, 30, 133, 8232, 8233}"

text \<open>
  \<^verbatim>\<open>value.splitlines(False)\<close>: the interpreter scans to the next line boundary, takes
  the characters before it as a line, skips the boundary (\<^verbatim>\<open>\r\n\<close> counts as one) and
  goes on until the text is used up. The first argument is the line read so far.
\<close>

fun splitlines_from :: "unicode \<Rightarrow> unicode \<Rightarrow> unicode list" where
  "splitlines_from line [] = (if line = [] then [] else [line])"
| "splitlines_from line (c # cs) =
     (if is_linebreak c
      then line # (case cs of
                     [] \<Rightarrow> splitlines_from [] cs
                   | d # ds \<Rightarrow> if c = CR \<and> d = LF then splitlines_from [] ds
                              else splitlines_from [] cs)
      else splitlines_from (line @ [c]) cs)"

definition splitlines :: "unicode \<Rightarrow> unicode list" where
  "splitlines v = splitlines_from [] v"

section \<open>The style of an outgoing string\<close>

text \<open>
  \<^verbatim>\<open>string_dumper\<close>, lines 176 to 191:
  \<^verbatim>\<open>
    folded_style = '>'
    verbatim_style = '|'
    long_lines = any(len(line) > 40 for line in value.splitlines(False)) and ' ' in value
    multilines = '\n' in value
    if multilines:
        style = verbatim_style
    elif long_lines:
        style = folded_style
  \<close>
  with \<^verbatim>\<open>style = None\<close> before.
\<close>

definition folded_style :: char where "folded_style = CHR ''>''"
definition verbatim_style :: char where "verbatim_style = CHR ''|''"

definition long_lines :: "unicode \<Rightarrow> bool" where
  "long_lines v \<longleftrightarrow> list_ex (\<lambda>line. 40 < length line) (splitlines v) \<and> SP \<in> set v"

definition multilines :: "unicode \<Rightarrow> bool" where
  "multilines v \<longleftrightarrow> LF \<in> set v"

definition string_dumper_style :: "unicode \<Rightarrow> char option" where
  "string_dumper_style v =
     (if multilines v then Some verbatim_style
      else if long_lines v then Some folded_style
      else None)"

section \<open>Python values\<close>

text \<open>
  The objects that \<^verbatim>\<open>dump\<close> takes and \<^verbatim>\<open>load\<close> returns: \<^verbatim>\<open>None\<close>, \<^verbatim>\<open>bool\<close>, \<^verbatim>\<open>int\<close>,
  \<^verbatim>\<open>float\<close>, \<^verbatim>\<open>unicode\<close>, \<^verbatim>\<open>list\<close> and \<^verbatim>\<open>OrderedDict\<close> (the items in their order), and
  two kinds beside these seven: a \<^verbatim>\<open>datetime.date\<close> (year, month, day), for which the
  dumper inherits a representer, and \<open>PyObject c\<close>, an instance of some other class
  \<open>c\<close>, for which it has none. A float is given by its \<^verbatim>\<open>repr\<close>, the only thing the
  program asks of it. Values are trees: an object referenced twice is not told from two
  equal objects. Left out are the other types that \<^verbatim>\<open>SafeDumper\<close> has representers for
  (byte strings, \<^verbatim>\<open>long\<close>, tuples, sets, \<^verbatim>\<open>datetime\<close> and the plain \<^verbatim>\<open>dict\<close>, which has no
  order of its own and is written with its keys sorted).
\<close>

datatype pyobj =
    PyNone
  | PyBool bool
  | PyInt int
  | PyFloat unicode
  | PyStr unicode
  | PyList "pyobj list"
  | PyODict "(pyobj \<times> pyobj) list"
  | PyDate nat nat nat
  | PyObject string

datatype pytype =
    T_NoneType | T_str | T_unicode | T_bool | T_int | T_long | T_float | T_list | T_tuple
  | T_dict | T_set | T_date | T_datetime | T_OrderedDict | T_other string

fun type_of :: "pyobj \<Rightarrow> pytype" where
  "type_of PyNone = T_NoneType"
| "type_of (PyBool b) = T_bool"
| "type_of (PyInt i) = T_int"
| "type_of (PyFloat r) = T_float"
| "type_of (PyStr s) = T_unicode"
| "type_of (PyList xs) = T_list"
| "type_of (PyODict m) = T_OrderedDict"
| "type_of (PyDate y m d) = T_date"
| "type_of (PyObject c) = T_other c"

text \<open>
  What a call can raise. \<open>Unmodelled\<close> is not an exception: the call enters a function
  of PyYAML that is not modelled here (the constructors of \<^verbatim>\<open>!!binary\<close>, \<^verbatim>\<open>!!set\<close>
  and \<^verbatim>\<open>!!pairs\<close>), and nothing is said about its result.
\<close>

datatype error =
    RepresenterError pyobj
  | ConstructorError string
  | KeyError unicode
  | TypeError string
  | AssertionError
  | Unmodelled string

section \<open>The node graph\<close>

text \<open>
  PyYAML's \<^verbatim>\<open>ScalarNode(tag, value, style)\<close>, \<^verbatim>\<open>SequenceNode(tag, value)\<close> and
  \<^verbatim>\<open>MappingNode(tag, value)\<close>; a mapping node holds its key and value nodes as a list of
  pairs in document order. The functions of \<^verbatim>\<open>saneyaml.py\<close> take and return these nodes:
  the loaders are called on the nodes that PyYAML composes from the text, and the dumpers
  return the nodes that PyYAML then writes as text. The text itself is PyYAML's
  business on both sides, so a document is given here by its node graph: \<^verbatim>\<open>dump\<close> is
  followed up to the node graph it hands to the serializer, and \<^verbatim>\<open>load\<close> from the node
  graph the composer hands to it. The serializer writes every tag that the text of a
  scalar does not imply, so that a graph is read back with the tags it was written with,
  its pairs and items in the order they were written in. Anchors and aliases, by which
  a node can occur twice in a graph, are left out: the graph is a tree.
\<close>

datatype node =
    ScalarNode string unicode "char option"
  | SequenceNode string "node list"
  | MappingNode string "(node \<times> node) list"

fun node_tag :: "node \<Rightarrow> string" where
  "node_tag (ScalarNode t v s) = t"
| "node_tag (SequenceNode t ns) = t"
| "node_tag (MappingNode t kvs) = t"

section \<open>Loading\<close>

text \<open>
  The functions a tag can be bound to in \<^verbatim>\<open>yaml_constructors\<close>: the two loaders of
  \<^verbatim>\<open>saneyaml.py\<close>, the constructors of PyYAML's \<^verbatim>\<open>SafeConstructor\<close> that the module leaves
  in place for tags a document can carry without naming them (\<^verbatim>\<open>construct_yaml_bool\<close>,
  \<^verbatim>\<open>construct_yaml_seq\<close>), \<^verbatim>\<open>construct_undefined\<close> for a tag with no entry, and, by name
  only, the other constructors of \<^verbatim>\<open>SafeConstructor\<close>.
\<close>

datatype constructor =
    String_loader
  | Ordered_loader
  | Construct_yaml_bool
  | Construct_yaml_seq
  | Construct_undefined
  | Base_constructor string

type_synonym constructors = "string \<rightharpoonup> constructor"

text \<open>The table that \<^verbatim>\<open>SaneLoader\<close> inherits from \<^verbatim>\<open>SafeLoader\<close>.\<close>

definition SafeLoader_yaml_constructors :: constructors where
  "SafeLoader_yaml_constructors =
     [''tag:yaml.org,2002:null'' \<mapsto> Base_constructor ''construct_yaml_null'',
      ''tag:yaml.org,2002:bool'' \<mapsto> Construct_yaml_bool,
      ''tag:yaml.org,2002:int'' \<mapsto> Base_constructor ''construct_yaml_int'',
      ''tag:yaml.org,2002:float'' \<mapsto> Base_constructor ''construct_yaml_float'',
      ''tag:yaml.org,2002:binary'' \<mapsto> Base_constructor ''construct_yaml_binary'',
      ''tag:yaml.org,2002:timestamp'' \<mapsto> Base_constructor ''construct_yaml_timestamp'',
      ''tag:yaml.org,2002:omap'' \<mapsto> Base_constructor ''construct_yaml_omap'',
      ''tag:yaml.org,2002:pairs'' \<mapsto> Base_constructor ''construct_yaml_pairs'',
      ''tag:yaml.org,2002:set'' \<mapsto> Base_constructor ''construct_yaml_set'',
      ''tag:yaml.org,2002:str'' \<mapsto> Base_constructor ''construct_yaml_str'',
      ''tag:yaml.org,2002:seq'' \<mapsto> Construct_yaml_seq,
      ''tag:yaml.org,2002:map'' \<mapsto> Base_constructor ''construct_yaml_map'']"

text \<open>\<^verbatim>\<open>cls.yaml_constructors[tag] = constructor\<close>\<close>

definition add_constructor :: "string \<Rightarrow> constructor \<Rightarrow> constructors \<Rightarrow> constructors" where
  "add_constructor t c tbl = tbl(t \<mapsto> c)"

text \<open>
  The table of \<^verbatim>\<open>SaneLoader\<close> once the module is imported: the calls of lines 102, 112
  to 117, 133 and 134, in that order.
\<close>

definition SaneLoader_yaml_constructors :: constructors where
  "SaneLoader_yaml_constructors =
     (add_constructor ''tag:yaml.org,2002:omap'' Ordered_loader
     (add_constructor ''tag:yaml.org,2002:map'' Ordered_loader
     (add_constructor ''tag:yaml.org,2002:null'' String_loader
     (add_constructor ''tag:yaml.org,2002:int'' String_loader
     (add_constructor ''tag:yaml.org,2002:float'' String_loader
     (add_constructor ''tag:yaml.org,2002:timestamp'' String_loader
     (add_constructor ''tag:yaml.org,2002:boolean'' String_loader
     (add_constructor ''tag:yaml.org,2002:null'' String_loader
     (add_constructor ''tag:yaml.org,2002:str'' String_loader
        SafeLoader_yaml_constructors)))))))))"

text \<open>
  \<^verbatim>\<open>construct_object\<close> looks the node's tag up; a tag without an entry goes to the entry
  under \<^verbatim>\<open>None\<close>, which is \<^verbatim>\<open>construct_undefined\<close>.
\<close>

definition constructor_for :: "constructors \<Rightarrow> string \<Rightarrow> constructor" where
  "constructor_for tbl t = (case tbl t of Some c \<Rightarrow> c | None \<Rightarrow> Construct_undefined)"

text \<open>
  \<^verbatim>\<open>SafeConstructor.construct_scalar\<close>: the value of a scalar node; of a mapping node,
  the scalar under its first key tagged \<^verbatim>\<open>tag:yaml.org,2002:value\<close>; \<^verbatim>\<open>ConstructorError\<close>
  otherwise.
\<close>

fun construct_scalar :: "node \<Rightarrow> error + unicode"
and construct_scalar_value :: "(node \<times> node) list \<Rightarrow> error + unicode" where
  "construct_scalar (ScalarNode t v s) = Inr v"
| "construct_scalar (SequenceNode t ns) =
     Inl (ConstructorError ''expected a scalar node, but found sequence'')"
| "construct_scalar (MappingNode t kvs) = construct_scalar_value kvs"
| "construct_scalar_value [] =
     Inl (ConstructorError ''expected a scalar node, but found mapping'')"
| "construct_scalar_value ((key_node, value_node) # kvs) =
     (if node_tag key_node = ''tag:yaml.org,2002:value'' then construct_scalar value_node
      else construct_scalar_value kvs)"

text \<open>
  \<^verbatim>\<open>string_loader\<close>, lines 95 to 99:
  \<^verbatim>\<open>
    return loader.construct_scalar(node)
  \<close>
\<close>

definition string_loader :: "node \<Rightarrow> error + pyobj" where
  "string_loader node = (case construct_scalar node of Inl e \<Rightarrow> Inl e | Inr v \<Rightarrow> Inr (PyStr v))"

text \<open>
  \<^verbatim>\<open>SafeConstructor.construct_yaml_bool\<close>:
  \<^verbatim>\<open>
    value = self.construct_scalar(node)
    return self.bool_values[value.lower()]
  \<close>
\<close>

definition bool_values :: "(unicode \<times> bool) list" where
  "bool_values =
     [(u ''yes'', True), (u ''no'', False), (u ''true'', True), (u ''false'', False),
      (u ''on'', True), (u ''off'', False)]"

definition construct_yaml_bool :: "node \<Rightarrow> error + pyobj" where
  "construct_yaml_bool node =
     (case construct_scalar node of
        Inl e \<Rightarrow> Inl e
      | Inr v \<Rightarrow> (case map_of bool_values (lower v) of
                    None \<Rightarrow> Inl (KeyError (lower v))
                  | Some b \<Rightarrow> Inr (PyBool b)))"

text \<open>
  \<^verbatim>\<open>omap[key] = value\<close> on an \<^verbatim>\<open>OrderedDict\<close>: \<^verbatim>\<open>TypeError\<close> for an unhashable key (a
  list or a dictionary); a key already there keeps its place and takes the new
  value; a new key goes to the end. The keys that the loaders build are text and
  booleans, on which Python's \<^verbatim>\<open>==\<close> is equality of values.
\<close>

fun hashable :: "pyobj \<Rightarrow> bool" where
  "hashable (PyList xs) = False"
| "hashable (PyODict m) = False"
| "hashable obj = True"

definition setitem :: "(pyobj \<times> pyobj) list \<Rightarrow> pyobj \<Rightarrow> pyobj \<Rightarrow> error + (pyobj \<times> pyobj) list" where
  "setitem omap key val =
     (if hashable key then Inr (AList.update key val omap)
      else Inl (TypeError ''unhashable type''))"

text \<open>
  \<^verbatim>\<open>construct_object\<close> calls the constructor bound to the node's tag.
  \<^verbatim>\<open>ordered_loader\<close>, lines 120 to 131:
  \<^verbatim>\<open>
    assert isinstance(node, yaml.MappingNode)
    omap = OrderedDict()
    yield omap
    for key, value in node.value:
        key = loader.construct_object(key)
        value = loader.construct_object(value)
        omap[key] = value
  \<close>
  \<open>ordered_loader_loop\<close> is the \<^verbatim>\<open>for\<close> loop, with \<^verbatim>\<open>omap\<close> as it stands before the
  pairs still to come. \<^verbatim>\<open>construct_yaml_seq\<close> builds the list of the constructed items
  of a sequence node. Both are generators, which PyYAML runs to their end before
  \<^verbatim>\<open>load\<close> returns; when several parts of a document are faulty the error below is
  that of the first in document order, where PyYAML, which puts off the filling of nested
  collections, can raise that of another.
\<close>

function (sequential) construct_object :: "constructors \<Rightarrow> node \<Rightarrow> error + pyobj"
and run_constructor :: "constructors \<Rightarrow> constructor \<Rightarrow> node \<Rightarrow> error + pyobj"
and construct_sequence :: "constructors \<Rightarrow> node list \<Rightarrow> error + pyobj list"
and ordered_loader_loop ::
  "constructors \<Rightarrow> (pyobj \<times> pyobj) list \<Rightarrow> (node \<times> node) list \<Rightarrow> error + (pyobj \<times> pyobj) list"
where
  "construct_object tbl node = run_constructor tbl (constructor_for tbl (node_tag node)) node"
| "run_constructor tbl String_loader node = string_loader node"
| "run_constructor tbl Ordered_loader (MappingNode t kvs) =
     (case ordered_loader_loop tbl [] kvs of Inl e \<Rightarrow> Inl e | Inr omap \<Rightarrow> Inr (PyODict omap))"
| "run_constructor tbl Ordered_loader (ScalarNode t v s) = Inl AssertionError"
| "run_constructor tbl Ordered_loader (SequenceNode t ns) = Inl AssertionError"
| "run_constructor tbl Construct_yaml_bool node = construct_yaml_bool node"
| "run_constructor tbl Construct_yaml_seq (SequenceNode t ns) =
     (case construct_sequence tbl ns of Inl e \<Rightarrow> Inl e | Inr xs \<Rightarrow> Inr (PyList xs))"
| "run_constructor tbl Construct_yaml_seq (ScalarNode t v s) =
     Inl (ConstructorError ''expected a sequence node, but found scalar'')"
| "run_constructor tbl Construct_yaml_seq (MappingNode t kvs) =
     Inl (ConstructorError ''expected a sequence node, but found mapping'')"
| "run_constructor tbl Construct_undefined node =
     Inl (ConstructorError ''could not determine a constructor for the tag'')"
| "run_constructor tbl (Base_constructor c) node = Inl (Unmodelled c)"
| "construct_sequence tbl [] = Inr []"
| "construct_sequence tbl (child # ns) =
     (case construct_object tbl child of
        Inl e \<Rightarrow> Inl e
      | Inr x \<Rightarrow> (case construct_sequence tbl ns of Inl e \<Rightarrow> Inl e | Inr xs \<Rightarrow> Inr (x # xs)))"
| "ordered_loader_loop tbl omap [] = Inr omap"
| "ordered_loader_loop tbl omap ((key_node, value_node) # kvs) =
     (case construct_object tbl key_node of
        Inl e \<Rightarrow> Inl e
      | Inr key \<Rightarrow>
          (case construct_object tbl value_node of
             Inl e \<Rightarrow> Inl e
           | Inr val \<Rightarrow>
               (case setitem omap key val of
                  Inl e \<Rightarrow> Inl e
                | Inr omap' \<Rightarrow> ordered_loader_loop tbl omap' kvs)))"
  by pat_completeness auto
termination
  by (relation "measure (\<lambda>x. case x of
         Inl (Inl (tbl, node)) \<Rightarrow> 2 * size node + 1
       | Inl (Inr (tbl, c, node)) \<Rightarrow> 2 * size node
       | Inr (Inl (tbl, ns)) \<Rightarrow> 2 * size_list size ns + 1
       | Inr (Inr (tbl, omap, kvs)) \<Rightarrow> 2 * size_list (size_prod size size) kvs + 1)")
     auto

text \<open>
  \<^verbatim>\<open>load\<close>, line 67: \<^verbatim>\<open>yaml.load(s, Loader=SaneLoader)\<close>, that is
  \<^verbatim>\<open>SaneLoader(s).get_single_data()\<close>:
  \<^verbatim>\<open>
    node = self.get_single_node()
    if node is not None:
        return self.construct_document(node)
    return None
  \<close>
  The argument is what the composer makes of the text \<^verbatim>\<open>s\<close>: \<open>None\<close> when the stream
  holds no document, as for the empty string, or the root node of its document.
\<close>

definition load :: "node option \<Rightarrow> error + pyobj" where
  "load s = (case s of
               None \<Rightarrow> Inr PyNone
             | Some node \<Rightarrow> construct_object SaneLoader_yaml_constructors node)"

section \<open>Dumping\<close>

text \<open>
  The functions a type can be bound to in \<^verbatim>\<open>yaml_representers\<close>: the dumpers of
  \<^verbatim>\<open>saneyaml.py\<close> (\<^verbatim>\<open>string_dumper\<close> with the tag that \<^verbatim>\<open>partial\<close> fixes),
  \<^verbatim>\<open>represent_none\<close>, \<^verbatim>\<open>represent_list\<close>, \<^verbatim>\<open>represent_date\<close> and \<^verbatim>\<open>represent_undefined\<close>
  of PyYAML's \<^verbatim>\<open>SafeRepresenter\<close>, and, by name only, its other representers.
\<close>

datatype representer =
    Ordered_dumper
  | Null_dumper
  | String_dumper string
  | Boolean_dumper
  | Represent_none
  | Represent_list
  | Represent_date
  | Represent_undefined
  | Base_representer string

type_synonym representers = "pytype \<rightharpoonup> representer"

text \<open>The table of \<^verbatim>\<open>SafeRepresenter\<close> (Python 2), which \<^verbatim>\<open>SafeDumper\<close> inherits.\<close>

definition SafeRepresenter_yaml_representers :: representers where
  "SafeRepresenter_yaml_representers =
     [T_NoneType \<mapsto> Represent_none,
      T_str \<mapsto> Base_representer ''represent_str'',
      T_unicode \<mapsto> Base_representer ''represent_unicode'',
      T_bool \<mapsto> Base_representer ''represent_bool'',
      T_int \<mapsto> Base_representer ''represent_int'',
      T_long \<mapsto> Base_representer ''represent_long'',
      T_float \<mapsto> Base_representer ''represent_float'',
      T_list \<mapsto> Represent_list,
      T_tuple \<mapsto> Represent_list,
      T_dict \<mapsto> Base_representer ''represent_dict'',
      T_set \<mapsto> Base_representer ''represent_set'',
      T_date \<mapsto> Represent_date,
      T_datetime \<mapsto> Base_representer ''represent_datetime'']"

text \<open>
  \<^verbatim>\<open>add_representer\<close> is a class method of PyYAML:
  \<^verbatim>\<open>
    if not 'yaml_representers' in cls.__dict__:
        cls.yaml_representers = cls.yaml_representers.copy()
    cls.yaml_representers[data_type] = representer
  \<close>
  A class gets a table of its own, a copy of the one it inherits at that moment, the
  first time something is added to it. The module adds to two classes, \<^verbatim>\<open>SafeDumper\<close>
  and its subclass \<^verbatim>\<open>SaneDumper\<close>, so the state is the table each of them owns, if any.
\<close>

datatype dumper_class = SafeDumper | SaneDumper

record dumper_classes =
  SafeDumper_own :: "representers option"
  SaneDumper_own :: "representers option"

text \<open>\<^verbatim>\<open>cls.yaml_representers\<close>: the class's own table, or else the one it inherits.\<close>

definition SafeDumper_yaml_representers :: "dumper_classes \<Rightarrow> representers" where
  "SafeDumper_yaml_representers cs =
     (case SafeDumper_own cs of Some tbl \<Rightarrow> tbl | None \<Rightarrow> SafeRepresenter_yaml_representers)"

fun yaml_representers :: "dumper_classes \<Rightarrow> dumper_class \<Rightarrow> representers" where
  "yaml_representers cs SafeDumper = SafeDumper_yaml_representers cs"
| "yaml_representers cs SaneDumper =
     (case SaneDumper_own cs of Some tbl \<Rightarrow> tbl | None \<Rightarrow> SafeDumper_yaml_representers cs)"

fun add_representer :: "dumper_class \<Rightarrow> pytype \<Rightarrow> representer \<Rightarrow> dumper_classes \<Rightarrow> dumper_classes" where
  "add_representer SafeDumper ty r cs =
     cs\<lparr>SafeDumper_own := Some ((yaml_representers cs SafeDumper)(ty \<mapsto> r))\<rparr>"
| "add_representer SaneDumper ty r cs =
     cs\<lparr>SaneDumper_own := Some ((yaml_representers cs SaneDumper)(ty \<mapsto> r))\<rparr>"

text \<open>
  The classes once the module is imported: the calls of lines 151, 160, 201 to 204 and
  215, in that order. Line 160 adds \<^verbatim>\<open>null_dumper\<close> to \<^verbatim>\<open>SafeDumper\<close>, the others add to
  \<^verbatim>\<open>SaneDumper\<close>.
\<close>

definition module_dumper_classes :: dumper_classes where
  "module_dumper_classes =
     (add_representer SaneDumper T_bool Boolean_dumper
     (add_representer SaneDumper T_float (String_dumper ''tag:yaml.org,2002:float'')
     (add_representer SaneDumper T_int (String_dumper ''tag:yaml.org,2002:int'')
     (add_representer SaneDumper T_unicode (String_dumper ''tag:yaml.org,2002:str'')
     (add_representer SaneDumper T_str (String_dumper ''tag:yaml.org,2002:str'')
     (add_representer SafeDumper T_NoneType Null_dumper
     (add_representer SaneDumper T_OrderedDict Ordered_dumper
        \<lparr>SafeDumper_own = None, SaneDumper_own = None\<rparr>)))))))"

definition SaneDumper_yaml_representers :: representers where
  "SaneDumper_yaml_representers = yaml_representers module_dumper_classes SaneDumper"

text \<open>
  \<^verbatim>\<open>represent_data\<close> looks the type of the object up; a type without an entry goes to
  the entry under \<^verbatim>\<open>None\<close>, which is \<^verbatim>\<open>represent_undefined\<close>.
\<close>

definition representer_for :: "representers \<Rightarrow> pytype \<Rightarrow> representer" where
  "representer_for tbl ty = (case tbl ty of Some r \<Rightarrow> r | None \<Rightarrow> Represent_undefined)"

text \<open>
  \<^verbatim>\<open>null_dumper\<close>, line 158:
  \<^verbatim>\<open>
    return dumper.represent_scalar(u'tag:yaml.org,2002:null', u'')
  \<close>
  and \<^verbatim>\<open>represent_none\<close> of PyYAML:
  \<^verbatim>\<open>
    return self.represent_scalar(u'tag:yaml.org,2002:null', u'null')
  \<close>
  \<^verbatim>\<open>represent_scalar(tag, value, style)\<close> returns \<^verbatim>\<open>ScalarNode(tag, value, style=style)\<close>
  (the \<^verbatim>\<open>default_style\<close> that replaces a style of \<^verbatim>\<open>None\<close> is \<^verbatim>\<open>None\<close> in \<^verbatim>\<open>dump\<close>).
\<close>

definition null_dumper :: node where
  "null_dumper = ScalarNode ''tag:yaml.org,2002:null'' [] None"

definition represent_none :: node where
  "represent_none = ScalarNode ''tag:yaml.org,2002:null'' (u ''null'') None"

text \<open>
  \<^verbatim>\<open>string_dumper\<close>, lines 163 to 199. A value that is not text is replaced by its
  \<^verbatim>\<open>repr\<close>; the dumper is bound to \<^verbatim>\<open>int\<close> and \<^verbatim>\<open>float\<close> beside the two text types, so
  the \<^verbatim>\<open>repr\<close> of these is all that is needed. The style is chosen as above and the
  node is \<^verbatim>\<open>dumper.represent_scalar(_tag, value, style=style)\<close>.
\<close>

fun repr :: "pyobj \<Rightarrow> unicode option" where
  "repr (PyInt i) = Some (repr_int i)"
| "repr (PyFloat r) = Some r"
| "repr obj = None"

definition string_dumper :: "pyobj \<Rightarrow> string \<Rightarrow> error + node" where
  "string_dumper val tag =
     (case (case val of PyStr s \<Rightarrow> Some s | _ \<Rightarrow> repr val) of
        None \<Rightarrow> Inl (Unmodelled ''repr'')
      | Some v \<Rightarrow> Inr (ScalarNode tag v (string_dumper_style v)))"

text \<open>
  \<^verbatim>\<open>boolean_dumper\<close>, lines 207 to 213:
  \<^verbatim>\<open>
    value = u'yes' if value else u'no'
    style = None
    return dumper.represent_scalar(u'tag:yaml.org,2002:bool', value, style=style)
  \<close>
\<close>

definition boolean_dumper :: "bool \<Rightarrow> node" where
  "boolean_dumper val =
     ScalarNode ''tag:yaml.org,2002:bool'' (if val then u ''yes'' else u ''no'') None"

text \<open>
  \<^verbatim>\<open>represent_date\<close> of PyYAML: \<^verbatim>\<open>data.isoformat()\<close>, tagged timestamp.
\<close>

definition isoformat :: "nat \<Rightarrow> nat \<Rightarrow> nat \<Rightarrow> unicode" where
  "isoformat y m d = zero_padded 4 y @ [45] @ zero_padded 2 m @ [45] @ zero_padded 2 d"

definition represent_date :: "nat \<Rightarrow> nat \<Rightarrow> nat \<Rightarrow> node" where
  "represent_date y m d = ScalarNode ''tag:yaml.org,2002:timestamp'' (isoformat y m d) None"

text \<open>
  \<^verbatim>\<open>represent_data\<close> calls the representer bound to the type of the object.
  \<^verbatim>\<open>ordered_dumper\<close>, line 149:
  \<^verbatim>\<open>
    return dumper.represent_mapping(u'tag:yaml.org,2002:map', data.items())
  \<close>
  \<^verbatim>\<open>represent_mapping\<close> sorts what has an \<^verbatim>\<open>items\<close> attribute; the list \<^verbatim>\<open>data.items()\<close>
  has none, so the pairs are represented as they come, the key and then the value of
  each. \<^verbatim>\<open>represent_list\<close> is \<^verbatim>\<open>represent_sequence(u'tag:yaml.org,2002:seq', data)\<close>, which
  represents the items as they come. \<^verbatim>\<open>represent_undefined\<close> raises \<^verbatim>\<open>RepresenterError\<close>.
  A representer is called on objects of the types it is bound to; the \<open>Unmodelled\<close>
  branches of \<open>run_representer\<close> stand for the calls that the tables never make.
\<close>

function represent_data :: "representers \<Rightarrow> pyobj \<Rightarrow> error + node"
and run_representer :: "representers \<Rightarrow> representer \<Rightarrow> pyobj \<Rightarrow> error + node"
and represent_sequence :: "representers \<Rightarrow> pyobj list \<Rightarrow> error + node list"
and represent_mapping :: "representers \<Rightarrow> (pyobj \<times> pyobj) list \<Rightarrow> error + (node \<times> node) list"
where
  "represent_data tbl data = run_representer tbl (representer_for tbl (type_of data)) data"
| "run_representer tbl Ordered_dumper data =
     (case data of
        PyODict items \<Rightarrow>
          (case represent_mapping tbl items of
             Inl e \<Rightarrow> Inl e
           | Inr kvs \<Rightarrow> Inr (MappingNode ''tag:yaml.org,2002:map'' kvs))
      | _ \<Rightarrow> Inl (Unmodelled ''ordered_dumper''))"
| "run_representer tbl Null_dumper data = Inr null_dumper"
| "run_representer tbl (String_dumper tag) data = string_dumper data tag"
| "run_representer tbl Boolean_dumper data =
     (case data of
        PyBool b \<Rightarrow> Inr (boolean_dumper b)
      | _ \<Rightarrow> Inl (Unmodelled ''boolean_dumper''))"
| "run_representer tbl Represent_none data = Inr represent_none"
| "run_representer tbl Represent_list data =
     (case data of
        PyList xs \<Rightarrow>
          (case represent_sequence tbl xs of
             Inl e \<Rightarrow> Inl e
           | Inr ns \<Rightarrow> Inr (SequenceNode ''tag:yaml.org,2002:seq'' ns))
      | _ \<Rightarrow> Inl (Unmodelled ''represent_list''))"
| "run_representer tbl Represent_date data =
     (case data of
        PyDate y m d \<Rightarrow> Inr (represent_date y m d)
      | _ \<Rightarrow> Inl (Unmodelled ''represent_date''))"
| "run_representer tbl Represent_undefined data = Inl (RepresenterError data)"
| "run_representer tbl (Base_representer c) data = Inl (Unmodelled c)"
| "represent_sequence tbl [] = Inr []"
| "represent_sequence tbl (item # xs) =
     (case represent_data tbl item of
        Inl e \<Rightarrow> Inl e
      | Inr node_item \<Rightarrow>
          (case represent_sequence tbl xs of Inl e \<Rightarrow> Inl e | Inr ns \<Rightarrow> Inr (node_item # ns)))"
| "represent_mapping tbl [] = Inr []"
| "represent_mapping tbl ((item_key, item_value) # items) =
     (case represent_data tbl item_key of
        Inl e \<Rightarrow> Inl e
      | Inr node_key \<Rightarrow>
          (case represent_data tbl item_value of
             Inl e \<Rightarrow> Inl e
           | Inr node_value \<Rightarrow>
               (case represent_mapping tbl items of
                  Inl e \<Rightarrow> Inl e
                | Inr kvs \<Rightarrow> Inr ((node_key, node_value) # kvs))))"
  by pat_completeness auto
termination
  by (relation "measure (\<lambda>x. case x of
         Inl (Inl (tbl, data)) \<Rightarrow> 2 * size data + 1
       | Inl (Inr (tbl, r, data)) \<Rightarrow> 2 * size data
       | Inr (Inl (tbl, xs)) \<Rightarrow> 2 * size_list size xs + 1
       | Inr (Inr (tbl, items)) \<Rightarrow> 2 * size_list (size_prod size size) items + 1)")
     auto

text \<open>
  \<^verbatim>\<open>dump\<close>, lines 70 to 88: \<^verbatim>\<open>yaml.dump(obj, Dumper=SaneDumper, ...)\<close> represents \<^verbatim>\<open>obj\<close>
  with the table of \<^verbatim>\<open>SaneDumper\<close> and serializes the node graph with the fixed options
  (block style, indent 4, width 80).
\<close>

definition dump :: "pyobj \<Rightarrow> error + node" where
  "dump obj = represent_data SaneDumper_yaml_representers obj"

section \<open>Notions used to state the properties\<close>

text \<open>
  The style selector as the specification words it, for a given notion \<open>brk\<close> of line
  break: literal-block style if the string contains a line break; otherwise folded style
  if some line (the text between two line breaks) is longer than 40 characters and the
  string contains a space; otherwise plain style.
\<close>

fun spec_lines_from :: "(nat \<Rightarrow> bool) \<Rightarrow> unicode \<Rightarrow> unicode \<Rightarrow> unicode list" where
  "spec_lines_from brk line [] = [line]"
| "spec_lines_from brk line (c # cs) =
     (if brk c then line # spec_lines_from brk [] cs else spec_lines_from brk (line @ [c]) cs)"

definition spec_style :: "(nat \<Rightarrow> bool) \<Rightarrow> unicode \<Rightarrow> char option" where
  "spec_style brk v =
     (if list_ex brk v then Some verbatim_style
      else if list_ex (\<lambda>line. 40 < length line) (spec_lines_from brk [] v) \<and> SP \<in> set v
      then Some folded_style
      else None)"

definition is_LF :: "nat \<Rightarrow> bool" where
  "is_LF c \<longleftrightarrow> c = LF"

text \<open>A run of more than \<open>n\<close> consecutive characters of \<open>v\<close>, none of them a line boundary.\<close>

definition has_run :: "nat \<Rightarrow> unicode \<Rightarrow> bool" where
  "has_run n v \<longleftrightarrow> (\<exists>ys. sublist ys v \<and> n < length ys \<and> (\<forall>c\<in>set ys. \<not> is_linebreak c))"

text \<open>
  \<open>load_dump\<close> is \<^verbatim>\<open>load(dump(obj))\<close> and \<open>dump_load_dump\<close> is \<^verbatim>\<open>dump(load(dump(obj)))\<close>,
  each failing where a step fails.
\<close>

definition load_dump :: "pyobj \<Rightarrow> error + pyobj" where
  "load_dump obj = (case dump obj of Inl e \<Rightarrow> Inl e | Inr node \<Rightarrow> load (Some node))"










text \<open>A tree of strings, booleans, sequences and mappings only.\<close>

function loaded_kinds :: "pyobj \<Rightarrow> bool"
and loaded_kinds_list :: "pyobj list \<Rightarrow> bool"
and loaded_kinds_items :: "(pyobj \<times> pyobj) list \<Rightarrow> bool" where
  "loaded_kinds (PyStr s) = True"
| "loaded_kinds (PyBool b) = True"
| "loaded_kinds (PyList xs) = loaded_kinds_list xs"
| "loaded_kinds (PyODict items) = loaded_kinds_items items"
| "loaded_kinds PyNone = False"
| "loaded_kinds (PyInt i) = False"
| "loaded_kinds (PyFloat r) = False"
| "loaded_kinds (PyDate y m d) = False"
| "loaded_kinds (PyObject c) = False"
| "loaded_kinds_list [] = True"
| "loaded_kinds_list (x # xs) = (loaded_kinds x \<and> loaded_kinds_list xs)"
| "loaded_kinds_items [] = True"
| "loaded_kinds_items ((k, v) # items) = (loaded_kinds k \<and> loaded_kinds v \<and> loaded_kinds_items items)"
  by pat_completeness auto
termination
  by (relation "measure (\<lambda>x. case x of
         Inl obj \<Rightarrow> size obj
       | Inr (Inl xs) \<Rightarrow> size_list size xs
       | Inr (Inr items) \<Rightarrow> size_list (size_prod size size) items)")
     auto

text \<open>
  \<open>constructs tbl (key_node, value_node) (key, val)\<close>: the two nodes of a pair of a mapping
  node are constructed as \<open>key\<close> and \<open>val\<close>. \<open>updates cs omap\<close> is \<open>omap\<close> after
  \<^verbatim>\<open>omap[key] = val\<close> for each \<open>(key, val)\<close> of \<open>cs\<close> in turn.
\<close>

definition constructs :: "constructors \<Rightarrow> node \<times> node \<Rightarrow> pyobj \<times> pyobj \<Rightarrow> bool" where
  "constructs tbl kv c \<longleftrightarrow>
     construct_object tbl (fst kv) = Inr (fst c) \<and> construct_object tbl (snd kv) = Inr (snd c)"

abbreviation updates :: "(pyobj \<times> pyobj) list \<Rightarrow> (pyobj \<times> pyobj) list \<Rightarrow> (pyobj \<times> pyobj) list" where
  "updates cs omap \<equiv> fold (\<lambda>c. AList.update (fst c) (snd c)) cs omap"

section \<open>The tables of the two classes\<close>

text \<open>
  What the tables hold once the module is imported. The tag \<^verbatim>\<open>tag:yaml.org,2002:bool\<close>,
  which PyYAML gives to \<^verbatim>\<open>true\<close>, \<^verbatim>\<open>yes\<close>, \<^verbatim>\<open>on\<close> and their like, is still bound to
  \<^verbatim>\<open>construct_yaml_bool\<close>: line 113 binds \<^verbatim>\<open>string_loader\<close> to
  \<^verbatim>\<open>tag:yaml.org,2002:boolean\<close>, a tag that no node carries. \<^verbatim>\<open>NoneType\<close> is still bound to
  \<^verbatim>\<open>represent_none\<close> in \<^verbatim>\<open>SaneDumper\<close>: line 160 binds \<^verbatim>\<open>null_dumper\<close> in \<^verbatim>\<open>SafeDumper\<close>,
  after \<^verbatim>\<open>SaneDumper\<close> has taken its own copy of the table at line 151.
\<close>

lemma SaneLoader_lookup:
  "constructor_for SaneLoader_yaml_constructors ''tag:yaml.org,2002:str'' = String_loader"
  "constructor_for SaneLoader_yaml_constructors ''tag:yaml.org,2002:null'' = String_loader"
  "constructor_for SaneLoader_yaml_constructors ''tag:yaml.org,2002:int'' = String_loader"
  "constructor_for SaneLoader_yaml_constructors ''tag:yaml.org,2002:float'' = String_loader"
  "constructor_for SaneLoader_yaml_constructors ''tag:yaml.org,2002:timestamp'' = String_loader"
  "constructor_for SaneLoader_yaml_constructors ''tag:yaml.org,2002:bool'' = Construct_yaml_bool"
  "constructor_for SaneLoader_yaml_constructors ''tag:yaml.org,2002:seq'' = Construct_yaml_seq"
  "constructor_for SaneLoader_yaml_constructors ''tag:yaml.org,2002:map'' = Ordered_loader"
  "constructor_for SaneLoader_yaml_constructors ''tag:yaml.org,2002:omap'' = Ordered_loader"
  by (simp_all add: constructor_for_def SaneLoader_yaml_constructors_def add_constructor_def
        SafeLoader_yaml_constructors_def)

lemma SaneDumper_lookup:
  "representer_for SaneDumper_yaml_representers T_NoneType = Represent_none"
  "representer_for SaneDumper_yaml_representers T_bool = Boolean_dumper"
  "representer_for SaneDumper_yaml_representers T_int = String_dumper ''tag:yaml.org,2002:int''"
  "representer_for SaneDumper_yaml_representers T_float = String_dumper ''tag:yaml.org,2002:float''"
  "representer_for SaneDumper_yaml_representers T_unicode = String_dumper ''tag:yaml.org,2002:str''"
  "representer_for SaneDumper_yaml_representers T_list = Represent_list"
  "representer_for SaneDumper_yaml_representers T_OrderedDict = Ordered_dumper"
  "representer_for SaneDumper_yaml_representers T_date = Represent_date"
  "representer_for SaneDumper_yaml_representers (T_other c) = Represent_undefined"
  by (simp_all add: representer_for_def SaneDumper_yaml_representers_def module_dumper_classes_def
        SafeDumper_yaml_representers_def SafeRepresenter_yaml_representers_def)

section \<open>The style selector\<close>

text \<open>
  The lines of \<^verbatim>\<open>splitlines\<close> are the maximal runs of characters that are not line
  boundaries, so some line is longer than \<open>n\<close> exactly when the text has a run of more
  than \<open>n\<close> such characters.
\<close>

lemma has_run_Nil: "\<not> has_run n []"
  by (simp add: has_run_def)

lemma has_run_Cons_break: "is_linebreak c \<Longrightarrow> has_run n (c # cs) \<longleftrightarrow> has_run n cs"
  unfolding has_run_def sublist_Cons_right
  by (auto simp: prefix_Cons)

lemma has_run_Cons: "has_run n (c # cs) \<longleftrightarrow>
   (\<exists>ys. prefix ys (c # cs) \<and> n < length ys \<and> (\<forall>c\<in>set ys. \<not> is_linebreak c)) \<or> has_run n cs"
  unfolding has_run_def sublist_Cons_right by blast



lemma bf_prefix_break:
  "is_linebreak c \<Longrightarrow> prefix p (c # cs) \<Longrightarrow> (\<forall>c\<in>set p. \<not> is_linebreak c) \<Longrightarrow> p = []"
  by (cases p) auto

lemma start_nb:
  assumes "\<not> is_linebreak c"
  shows "((\<exists>p. prefix p (c # cs) \<and> (\<forall>c\<in>set p. \<not> is_linebreak c) \<and> n < k + length p) \<or> has_run n (c # cs))
     \<longleftrightarrow> ((\<exists>p. prefix p cs \<and> (\<forall>c\<in>set p. \<not> is_linebreak c) \<and> n < Suc k + length p) \<or> has_run n cs)"
    (is "?L \<longleftrightarrow> ?R")
proof
  assume ?L
  then show ?R
  proof (elim disjE exE conjE)
    fix p assume p: "prefix p (c # cs)" "\<forall>c\<in>set p. \<not> is_linebreak c" "n < k + length p"
    show ?R
    proof (cases p)
      case Nil
      with p have "prefix [] cs \<and> (\<forall>c\<in>set []. \<not> is_linebreak c) \<and> n < Suc k + length ([]::unicode)" by simp
      then show ?thesis by blast
    next
      case (Cons a q)
      with p have "prefix q cs \<and> (\<forall>c\<in>set q. \<not> is_linebreak c) \<and> n < Suc k + length q" by simp
      then show ?thesis by blast
    qed
  next
    assume "has_run n (c # cs)"
    then consider ys where "prefix ys (c # cs)" "n < length ys" "\<forall>c\<in>set ys. \<not> is_linebreak c"
      | "has_run n cs" unfolding has_run_Cons by blast
    then show ?R
    proof cases
      case 1
      then obtain q where "ys = c # q" by (cases ys) auto
      with 1 have "prefix q cs \<and> (\<forall>c\<in>set q. \<not> is_linebreak c) \<and> n < Suc k + length q" by simp
      then show ?thesis by blast
    next
      case 2
      then show ?thesis by blast
    qed
  qed
next
  assume ?R
  then show ?L
  proof (elim disjE exE conjE)
    fix p assume p: "prefix p cs" "\<forall>c\<in>set p. \<not> is_linebreak c" "n < Suc k + length p"
    with assms have "prefix (c # p) (c # cs) \<and> (\<forall>x\<in>set (c # p). \<not> is_linebreak x) \<and> n < k + length (c # p)" by simp
    then show ?L by blast
  next
    assume "has_run n cs"
    then show ?L unfolding has_run_Cons[of n c cs] by blast
  qed
qed

lemma start_break:
  assumes "is_linebreak c"
  shows "((\<exists>p. prefix p (c # cs) \<and> (\<forall>c\<in>set p. \<not> is_linebreak c) \<and> n < k + length p) \<or> has_run n (c # cs))
     \<longleftrightarrow> (n < k \<or> has_run n cs)"
proof -
  have "(\<exists>p. prefix p (c # cs) \<and> (\<forall>c\<in>set p. \<not> is_linebreak c) \<and> n < k + length p) \<longleftrightarrow> n < k"
  proof
    assume "\<exists>p. prefix p (c # cs) \<and> (\<forall>c\<in>set p. \<not> is_linebreak c) \<and> n < k + length p"
    then obtain p where p: "prefix p (c # cs)" "\<forall>c\<in>set p. \<not> is_linebreak c" "n < k + length p" by blast
    from bf_prefix_break[OF assms p(1,2)] p(3) show "n < k" by simp
  next
    assume "n < k"
    then have "prefix [] (c # cs) \<and> (\<forall>c\<in>set []. \<not> is_linebreak c) \<and> n < k + length ([]::unicode)" by simp
    then show "\<exists>p. prefix p (c # cs) \<and> (\<forall>c\<in>set p. \<not> is_linebreak c) \<and> n < k + length p" by blast
  qed
  then show ?thesis by (simp add: has_run_Cons_break[OF assms])
qed

lemma start_run: "(\<exists>p. prefix p v \<and> (\<forall>c\<in>set p. \<not> is_linebreak c) \<and> n < length p) \<Longrightarrow> has_run n v"
  unfolding has_run_def by (meson prefix_imp_sublist)

lemma lines_runs:
  "list_ex (\<lambda>l. n < length l) (splitlines_from line v) \<longleftrightarrow>
     (\<exists>p. prefix p v \<and> (\<forall>c\<in>set p. \<not> is_linebreak c) \<and> n < length line + length p) \<or> has_run n v"
proof (induction line v rule: splitlines_from.induct)
  case (1 line)
  then show ?case by (auto simp: has_run_Nil)
next
  case (2 line c cs)
  show ?case
  proof (cases "is_linebreak c")
    case False
    have "list_ex (\<lambda>l. n < length l) (splitlines_from line (c # cs)) \<longleftrightarrow>
          list_ex (\<lambda>l. n < length l) (splitlines_from (line @ [c]) cs)"
      using False by simp
    also have "\<dots> \<longleftrightarrow> (\<exists>p. prefix p cs \<and> (\<forall>c\<in>set p. \<not> is_linebreak c) \<and> n < Suc (length line) + length p) \<or> has_run n cs"
      using "2.IH"(4)[OF False] by simp
    finally show ?thesis unfolding start_nb[OF False] .
  next
    case True
    have rest: "list_ex (\<lambda>l. n < length l) (splitlines_from [] w) \<longleftrightarrow> has_run n w"
      if "list_ex (\<lambda>l. n < length l) (splitlines_from [] w) \<longleftrightarrow>
         (\<exists>p. prefix p w \<and> (\<forall>c\<in>set p. \<not> is_linebreak c) \<and> n < length ([]::unicode) + length p) \<or> has_run n w" for w
      using that start_run[of w n] by auto
    show ?thesis
    proof (cases cs)
      case Nil
      with True "2.IH"(1) show ?thesis
        unfolding start_break[OF True] by (simp add: has_run_Nil)
    next
      case (Cons d ds)
      show ?thesis
      proof (cases "c = CR \<and> d = LF")
        case crlf: True
        have brk: "is_linebreak LF" by (simp add: is_linebreak_def LF_def)
        have "list_ex (\<lambda>l. n < length l) (splitlines_from [] ds) \<longleftrightarrow> has_run n ds"
          using rest[OF "2.IH"(2)[OF True Cons crlf]] .
        with True Cons crlf show ?thesis
          unfolding start_break[OF True] by (simp add: has_run_Cons_break[OF brk])
      next
        case False
        have "list_ex (\<lambda>l. n < length l) (splitlines_from [] cs) \<longleftrightarrow> has_run n cs"
          using rest[OF "2.IH"(3)[OF True Cons False]] .
        with True Cons False show ?thesis
          unfolding start_break[OF True] by auto
      qed
    qed
  qed
qed


lemma long_lines_iff:
  "long_lines v \<longleftrightarrow>
     (\<exists>xs ys zs. v = xs @ ys @ zs \<and> 40 < length ys \<and> (\<forall>c\<in>set ys. \<not> is_linebreak c)) \<and> SP \<in> set v"
proof -
  have "list_ex (\<lambda>l. 40 < length l) (splitlines v) \<longleftrightarrow> has_run 40 v"
    unfolding splitlines_def lines_runs using start_run[of v 40] by auto
  then show ?thesis unfolding long_lines_def has_run_def sublist_def by blast
qed

text \<open>
  C5, as amended. \<^verbatim>\<open>string_dumper\<close> picks the literal-block style \<^verbatim>\<open>|\<close> if the string
  contains a line feed; otherwise the folded style \<^verbatim>\<open>>\<close> if the string contains a space
  and more than 40 consecutive characters none of which is a line boundary of
  \<^verbatim>\<open>splitlines\<close> (line feed, carriage return, vertical tab, form feed, \<^verbatim>\<open>\x1c\<close>,
  \<^verbatim>\<open>\x1d\<close>, \<^verbatim>\<open>\x1e\<close>, \<^verbatim>\<open>\x85\<close>, U+2028, U+2029); otherwise no style, which is plain.
\<close>

theorem C5_style_selector:
  "string_dumper_style v =
     (if LF \<in> set v then Some verbatim_style
      else if (\<exists>xs ys zs. v = xs @ ys @ zs \<and> 40 < length ys \<and> (\<forall>c\<in>set ys. \<not> is_linebreak c))
              \<and> SP \<in> set v
      then Some folded_style
      else None)"
  unfolding string_dumper_style_def multilines_def long_lines_iff by simp

text \<open>A line of 60 characters with spaces is folded.\<close>

theorem C5_style_selector_witness:
  "string_dumper_style (u ''Licensed under the Apache License, Version 2.0 (the License)'')
     = Some folded_style"
proof -
  let ?v = "u ''Licensed under the Apache License, Version 2.0 (the License)''"
  have nb: "\<forall>c\<in>set ?v. \<not> is_linebreak c" by (simp add: is_linebreak_def)
  have "?v = [] @ ?v @ [] \<and> 40 < length ?v \<and> (\<forall>c\<in>set ?v. \<not> is_linebreak c)"
    using nb by simp
  then have run: "\<exists>xs ys zs. ?v = xs @ ys @ zs \<and> 40 < length ys \<and> (\<forall>c\<in>set ys. \<not> is_linebreak c)"
    by blast
  have lf: "LF \<notin> set ?v" by (simp add: LF_def)
  have sp: "SP \<in> set ?v" by (simp add: SP_def)
  show ?thesis using C5_style_selector[of ?v] run lf sp by simp
qed

text \<open>
  C5 as it is worded fails on a text of 54 characters with spaces and a carriage return
  after the 33rd, and no line feed. \<^verbatim>\<open>string_dumper\<close> gives it no style: it has no line
  feed, and \<^verbatim>\<open>splitlines\<close> cuts it at the carriage return into lines of 33 and 20
  characters. If a carriage return is a line break, the specification asks for the
  literal-block style; if only a line feed is one, the text is a single line of 54
  characters and the specification asks for the folded style.
\<close>

theorem C5_counterexample:
  "string_dumper_style (u ''Copyright (c) 2015-2017 nexB Inc.'' @ [CR] @ u ''http://www.nexb.com/'')
     \<noteq> spec_style is_LF (u ''Copyright (c) 2015-2017 nexB Inc.'' @ [CR] @ u ''http://www.nexb.com/'')
   \<and> string_dumper_style (u ''Copyright (c) 2015-2017 nexB Inc.'' @ [CR] @ u ''http://www.nexb.com/'')
     \<noteq> spec_style is_linebreak (u ''Copyright (c) 2015-2017 nexB Inc.'' @ [CR] @ u ''http://www.nexb.com/'')"
  by (simp add: string_dumper_style_def multilines_def long_lines_def splitlines_def
        spec_style_def is_LF_def is_linebreak_def LF_def CR_def SP_def
        folded_style_def verbatim_style_def)

text \<open>
  The three examples of the specification: a text of two lines is written in the
  literal-block style, a line of 60 characters with spaces in the folded style, a text
  of 10 characters in plain style.
\<close>

lemma style_examples:
  "string_dumper_style (u ''line one'' @ [LF] @ u ''line two'') = Some verbatim_style"
  "string_dumper_style (u ''Licensed under the Apache License, Version 2.0 (the License)'')
     = Some folded_style"
  "string_dumper_style (u ''about-code'') = None"
  by (simp_all add: string_dumper_style_def multilines_def long_lines_def splitlines_def
        is_linebreak_def LF_def CR_def SP_def)

section \<open>Loading scalars\<close>

lemma construct_scalars:
  "construct_object SaneLoader_yaml_constructors (ScalarNode ''tag:yaml.org,2002:str'' v s) = Inr (PyStr v)"
  "construct_object SaneLoader_yaml_constructors (ScalarNode ''tag:yaml.org,2002:null'' v s) = Inr (PyStr v)"
  "construct_object SaneLoader_yaml_constructors (ScalarNode ''tag:yaml.org,2002:int'' v s) = Inr (PyStr v)"
  "construct_object SaneLoader_yaml_constructors (ScalarNode ''tag:yaml.org,2002:float'' v s) = Inr (PyStr v)"
  "construct_object SaneLoader_yaml_constructors (ScalarNode ''tag:yaml.org,2002:timestamp'' v s) = Inr (PyStr v)"
  by (simp_all add: SaneLoader_lookup string_loader_def)


lemma construct_collections:
  "construct_object SaneLoader_yaml_constructors (SequenceNode ''tag:yaml.org,2002:seq'' ns) =
     (case construct_sequence SaneLoader_yaml_constructors ns of Inl e \<Rightarrow> Inl e | Inr xs \<Rightarrow> Inr (PyList xs))"
  "construct_object SaneLoader_yaml_constructors (MappingNode ''tag:yaml.org,2002:map'' kvs) =
     (case ordered_loader_loop SaneLoader_yaml_constructors [] kvs of Inl e \<Rightarrow> Inl e | Inr omap \<Rightarrow> Inr (PyODict omap))"
  by (simp_all add: SaneLoader_lookup)

declare construct_object.simps(1) [simp del]

lemmas style_eval = string_dumper_style_def multilines_def long_lines_def splitlines_def
  is_linebreak_def LF_def CR_def SP_def

lemmas load_eval = load_def construct_scalars construct_collections setitem_def
  SaneLoader_lookup construct_yaml_bool_def bool_values_def lower_def string_loader_def

text \<open>
  C1. An unquoted scalar whose text PyYAML resolves to a typed value should be loaded as
  its text. \<^verbatim>\<open>load\<close> does so for the scalars that PyYAML tags as integer, float,
  timestamp and null, \<^verbatim>\<open>123\<close>, \<^verbatim>\<open>3.14\<close>, \<^verbatim>\<open>2020-01-01\<close>, \<^verbatim>\<open>null\<close> and \<^verbatim>\<open>~\<close>; the scalar
  \<^verbatim>\<open>true\<close>, which PyYAML tags as boolean, is loaded as the boolean \<^verbatim>\<open>True\<close>.
\<close>

theorem C1_unquoted_scalars:
  "load (Some (ScalarNode ''tag:yaml.org,2002:bool'' (u ''true'') None)) = Inr (PyBool True)
   \<and> load (Some (ScalarNode ''tag:yaml.org,2002:int'' (u ''123'') None)) = Inr (PyStr (u ''123''))
   \<and> load (Some (ScalarNode ''tag:yaml.org,2002:timestamp'' (u ''2020-01-01'') None))
       = Inr (PyStr (u ''2020-01-01''))
   \<and> load (Some (ScalarNode ''tag:yaml.org,2002:null'' (u ''null'') None)) = Inr (PyStr (u ''null''))
   \<and> load (Some (ScalarNode ''tag:yaml.org,2002:null'' (u ''~'') None)) = Inr (PyStr (u ''~''))
   \<and> load (Some (ScalarNode ''tag:yaml.org,2002:float'' (u ''3.14'') None)) = Inr (PyStr (u ''3.14''))"
  by (simp add: load_eval construct_object.simps(1))


section \<open>Loading mappings\<close>

text \<open>
  The loop of \<^verbatim>\<open>ordered_loader\<close> returns, when it returns, \<^verbatim>\<open>omap\<close> updated with the
  constructed pairs in document order, and it returns when every pair is constructed and
  every key is hashable.
\<close>

lemma loop_result:
  "ordered_loader_loop tbl omap kvs = Inr m \<Longrightarrow>
     \<exists>cs. list_all2 (constructs tbl) kvs cs \<and> list_all hashable (map fst cs) \<and> m = updates cs omap"
proof (induction kvs arbitrary: omap)
  case Nil
  then show ?case by simp
next
  case (Cons kv kvs)
  obtain kn vn where kv: "kv = (kn, vn)" by (cases kv)
  from Cons.prems kv obtain k v where
    k: "construct_object tbl kn = Inr k" and v: "construct_object tbl vn = Inr v"
    and h: "hashable k" and rest: "ordered_loader_loop tbl (AList.update k v omap) kvs = Inr m"
    by (auto simp del: construct_object.simps simp add: setitem_def split: sum.splits if_splits)
  from Cons.IH[OF rest] obtain cs where
    cs: "list_all2 (constructs tbl) kvs cs" "list_all hashable (map fst cs)" "m = updates cs (AList.update k v omap)"
    by blast
  have "list_all2 (constructs tbl) (kv # kvs) ((k, v) # cs) \<and> list_all hashable (map fst ((k, v) # cs))
        \<and> m = updates ((k, v) # cs) omap"
    using cs k v h kv by (simp add: constructs_def del: construct_object.simps)
  then show ?case by blast
qed


lemma map_of_updates: "map_of (updates cs omap) = map_of omap ++ map_of (rev cs)"
proof (induction cs arbitrary: omap)
  case Nil
  then show ?case by simp
next
  case (Cons c cs)
  have "map_of (updates (c # cs) omap) = map_of (AList.update (fst c) (snd c) omap) ++ map_of (rev cs)"
    using Cons.IH by simp
  also have "\<dots> = (map_of omap)(fst c \<mapsto> snd c) ++ map_of (rev cs)"
    by (simp add: update_conv')
  also have "\<dots> = map_of omap ++ map_of (rev (c # cs))"
    by (cases c) (simp add: map_add_upd_left)
  finally show ?case .
qed

lemma distinct_updates: "distinct (map fst omap) \<Longrightarrow> distinct (map fst (updates cs omap))"
  by (induction cs arbitrary: omap) (simp_all add: distinct_update)

lemma keys_updates: "set (map fst (updates cs omap)) = set (map fst omap) \<union> set (map fst cs)"
  by (induction cs arbitrary: omap) (auto simp: dom_update)




lemma load_mapping:
  assumes "load (Some (MappingNode ''tag:yaml.org,2002:map'' kvs)) = Inr obj"
  shows "\<exists>cs. list_all2 (constructs SaneLoader_yaml_constructors) kvs cs \<and> obj = PyODict (updates cs [])"
proof -
  from assms obtain omap where omap: "ordered_loader_loop SaneLoader_yaml_constructors [] kvs = Inr omap" "obj = PyODict omap"
    by (auto simp: load_def construct_collections split: sum.splits)
  from loop_result[OF omap(1)] omap(2) show ?thesis by blast
qed

text \<open>
  C7. When \<^verbatim>\<open>load\<close> returns for a mapping node, it returns a dictionary that holds each
  key of the document once and binds it to the value of its last occurrence: \<open>cs\<close> are
  the constructed pairs in document order, and looking a key up in the reversed list finds its
  last pair.
\<close>

theorem C7_last_value_wins:
  assumes "load (Some (MappingNode ''tag:yaml.org,2002:map'' kvs)) = Inr obj"
  shows "\<exists>omap cs. obj = PyODict omap \<and> list_all2 (constructs SaneLoader_yaml_constructors) kvs cs
           \<and> distinct (map fst omap) \<and> set (map fst omap) = set (map fst cs)
           \<and> map_of omap = map_of (rev cs)"
proof -
  from load_mapping[OF assms] obtain cs where
    cs: "list_all2 (constructs SaneLoader_yaml_constructors) kvs cs" "obj = PyODict (updates cs [])" by blast
  have "distinct (map fst (updates cs []))" by (rule distinct_updates) simp
  moreover have "set (map fst (updates cs [])) = set (map fst cs)"
    using keys_updates[of cs "[]"] by simp
  moreover have "map_of (updates cs []) = map_of (rev cs)" by (simp add: map_of_updates)
  ultimately show ?thesis using cs by blast
qed

text \<open>The document \<^verbatim>\<open>a: 1\<close>, \<^verbatim>\<open>b: 3\<close>, \<^verbatim>\<open>a: 2\<close> is loaded with \<^verbatim>\<open>a\<close> once, bound to \<^verbatim>\<open>2\<close>.\<close>

theorem C7_last_value_wins_witness:
  "load (Some (MappingNode ''tag:yaml.org,2002:map''
       [(ScalarNode ''tag:yaml.org,2002:str'' (u ''a'') None, ScalarNode ''tag:yaml.org,2002:int'' (u ''1'') None),
        (ScalarNode ''tag:yaml.org,2002:str'' (u ''b'') None, ScalarNode ''tag:yaml.org,2002:int'' (u ''3'') None),
        (ScalarNode ''tag:yaml.org,2002:str'' (u ''a'') None, ScalarNode ''tag:yaml.org,2002:int'' (u ''2'') None)]))
     = Inr (PyODict [(PyStr (u ''a''), PyStr (u ''2'')), (PyStr (u ''b''), PyStr (u ''3''))])
   \<and> (\<exists>cs. list_all2 (constructs SaneLoader_yaml_constructors)
       [(ScalarNode ''tag:yaml.org,2002:str'' (u ''a'') None, ScalarNode ''tag:yaml.org,2002:int'' (u ''1'') None),
        (ScalarNode ''tag:yaml.org,2002:str'' (u ''b'') None, ScalarNode ''tag:yaml.org,2002:int'' (u ''3'') None),
        (ScalarNode ''tag:yaml.org,2002:str'' (u ''a'') None, ScalarNode ''tag:yaml.org,2002:int'' (u ''2'') None)] cs
      \<and> map_of [(PyStr (u ''a''), PyStr (u ''2'')), (PyStr (u ''b''), PyStr (u ''3''))] = map_of (rev cs))"
proof -
  let ?kvs = "[(ScalarNode ''tag:yaml.org,2002:str'' (u ''a'') None, ScalarNode ''tag:yaml.org,2002:int'' (u ''1'') None),
        (ScalarNode ''tag:yaml.org,2002:str'' (u ''b'') None, ScalarNode ''tag:yaml.org,2002:int'' (u ''3'') None),
        (ScalarNode ''tag:yaml.org,2002:str'' (u ''a'') None, ScalarNode ''tag:yaml.org,2002:int'' (u ''2'') None)]"
  have h: "load (Some (MappingNode ''tag:yaml.org,2002:map'' ?kvs))
     = Inr (PyODict [(PyStr (u ''a''), PyStr (u ''2'')), (PyStr (u ''b''), PyStr (u ''3''))])"
    by (simp add: load_eval)
  from C7_last_value_wins[OF h] h show ?thesis by blast
qed

section \<open>What load returns\<close>

text \<open>
  Whatever the node graph, an object that \<^verbatim>\<open>load\<close> returns for a document holds strings,
  booleans, lists and dictionaries only: no constructor bound in \<^verbatim>\<open>SaneLoader\<close> and
  modelled here returns a number, \<^verbatim>\<open>None\<close> or a date.
\<close>

lemma loaded_kinds_update:
  "loaded_kinds_items omap \<Longrightarrow> loaded_kinds k \<Longrightarrow> loaded_kinds v \<Longrightarrow>
     loaded_kinds_items (AList.update k v omap)"
  by (induction omap) auto

lemma constructed_kinds:
  "construct_object tbl node = Inr obj \<longrightarrow> loaded_kinds obj"
  "run_constructor tbl c node = Inr obj \<longrightarrow> loaded_kinds obj"
  "construct_sequence tbl ns = Inr xs \<longrightarrow> loaded_kinds_list xs"
  "loaded_kinds_items omap \<longrightarrow> ordered_loader_loop tbl omap kvs = Inr omap' \<longrightarrow> loaded_kinds_items omap'"
proof (induction tbl node and tbl c node and tbl ns and tbl omap kvs
       arbitrary: obj and obj and xs and omap'
       rule: construct_object_run_constructor_construct_sequence_ordered_loader_loop.induct)
  case (1 tbl node)
  then show ?case by (simp add: construct_object.simps(1))
next
  case (2 tbl node)
  then show ?case by (auto simp: string_loader_def split: sum.splits)
next
  case (3 tbl t kvs)
  then show ?case by (auto split: sum.splits)
next
  case (6 tbl node)
  then show ?case by (auto simp: construct_yaml_bool_def split: sum.splits option.splits)
next
  case (7 tbl t ns)
  then show ?case by (auto split: sum.splits)
next
  case (13 tbl child ns)
  then show ?case by (auto split: sum.splits)
next
  case (15 tbl omap key_node value_node kvs)
  show ?case
  proof (intro impI)
    assume lk: "loaded_kinds_items omap"
      and r: "ordered_loader_loop tbl omap ((key_node, value_node) # kvs) = Inr omap'"
    from r obtain k v where k: "construct_object tbl key_node = Inr k"
      and v: "construct_object tbl value_node = Inr v"
      and rest: "ordered_loader_loop tbl (AList.update k v omap) kvs = Inr omap'"
      and s: "setitem omap k v = Inr (AList.update k v omap)"
      by (auto simp: setitem_def simp del: construct_object.simps split: sum.splits if_splits)
    from 15(1) k have "loaded_kinds k" by simp
    moreover from 15(2)[OF k] v have "loaded_kinds v" by simp
    ultimately have "loaded_kinds_items (AList.update k v omap)"
      using lk by (rule_tac loaded_kinds_update)
    with 15(3)[OF k v s] rest show "loaded_kinds_items omap'" by simp
  qed
qed auto

lemma load_kinds: "load (Some node) = Inr obj \<Longrightarrow> loaded_kinds obj"
  using constructed_kinds(1)[of SaneLoader_yaml_constructors node obj] by (simp add: load_def)

section \<open>Dumping\<close>

lemma represent_scalars:
  "represent_data SaneDumper_yaml_representers PyNone = Inr represent_none"
  "represent_data SaneDumper_yaml_representers (PyBool b) = Inr (boolean_dumper b)"
  "represent_data SaneDumper_yaml_representers (PyInt i) =
     Inr (ScalarNode ''tag:yaml.org,2002:int'' (repr_int i) (string_dumper_style (repr_int i)))"
  "represent_data SaneDumper_yaml_representers (PyFloat r) = Inr (ScalarNode ''tag:yaml.org,2002:float'' r (string_dumper_style r))"
  "represent_data SaneDumper_yaml_representers (PyStr s) = Inr (ScalarNode ''tag:yaml.org,2002:str'' s (string_dumper_style s))"
  "represent_data SaneDumper_yaml_representers (PyDate y m d) = Inr (represent_date y m d)"
  "represent_data SaneDumper_yaml_representers (PyObject c) = Inl (RepresenterError (PyObject c))"
  by (simp_all add: SaneDumper_lookup string_dumper_def)

lemma represent_collections:
  "represent_data SaneDumper_yaml_representers (PyList xs) =
     (case represent_sequence SaneDumper_yaml_representers xs of
        Inl e \<Rightarrow> Inl e | Inr ns \<Rightarrow> Inr (SequenceNode ''tag:yaml.org,2002:seq'' ns))"
  "represent_data SaneDumper_yaml_representers (PyODict items) =
     (case represent_mapping SaneDumper_yaml_representers items of
        Inl e \<Rightarrow> Inl e | Inr kvs \<Rightarrow> Inr (MappingNode ''tag:yaml.org,2002:map'' kvs))"
  by (simp_all add: SaneDumper_lookup)

declare represent_data.simps(1) [simp del]

lemmas dump_eval = dump_def represent_scalars represent_collections boolean_dumper_def
  represent_none_def represent_date_def isoformat_def zero_padded_def repr_int_def digits.simps
  style_eval







section \<open>Dumping and loading again\<close>







text \<open>
  C6. \<^verbatim>\<open>dump\<close> writes \<^verbatim>\<open>True\<close> as the plain scalar \<^verbatim>\<open>yes\<close> and \<^verbatim>\<open>False\<close> as \<^verbatim>\<open>no\<close>, tagged
  boolean. Loading these should give the strings \<^verbatim>\<open>yes\<close> and \<^verbatim>\<open>no\<close>; \<^verbatim>\<open>load\<close> gives the
  booleans back, also for \<^verbatim>\<open>{"flag": True}\<close>.
\<close>

theorem C6_booleans:
  "dump (PyBool True) = Inr (ScalarNode ''tag:yaml.org,2002:bool'' (u ''yes'') None)
   \<and> dump (PyBool False) = Inr (ScalarNode ''tag:yaml.org,2002:bool'' (u ''no'') None)
   \<and> load (Some (ScalarNode ''tag:yaml.org,2002:bool'' (u ''yes'') None)) = Inr (PyBool True)
   \<and> load (Some (ScalarNode ''tag:yaml.org,2002:bool'' (u ''no'') None)) = Inr (PyBool False)
   \<and> load_dump (PyODict [(PyStr (u ''flag''), PyBool True)])
       = Inr (PyODict [(PyStr (u ''flag''), PyBool True)])"
  by (simp add: load_dump_def dump_eval load_eval construct_object.simps(1))









end
